theory Spec2Isabelle
  imports Complex_Main "HOL-Library.Multiset" "HOL-Library.Product_Lexorder"
begin

section \<open>Errors\<close>

text \<open>
  Every handler of \<^verbatim>\<open>src/index.ts\<close> answers a failed request with an HTTP status and a
  message. The validation failures (status 400, a message saying which field is missing or
  out of range) are the spec's \<open>InvalidInput\<close>; \<^verbatim>\<open>'Invalid code'\<close> and
  \<^verbatim>\<open>'Code expired'\<close> (status 400) are \<open>InvalidCode\<close> and \<open>CodeExpired\<close>; the
  \<^verbatim>\<open>catch\<close> branch of a handler (status 500) is \<open>InternalError\<close>.
\<close>

datatype invalid_input = FieldsRequired | QualityOutOfRange

datatype error = InvalidInput invalid_input | InvalidCode | CodeExpired | InternalError

section \<open>Review scheduler\<close>

subsection \<open>Interval ladder\<close>

text \<open>
  \<^verbatim>\<open>getNextIntervalDaysByMastery\<close>: the index is clamped into the ladder before the read,
  so the read is always in range.
\<close>

definition mapping :: "int list" where
  "mapping = [1, 2, 4, 7, 14, 30]"

definition getNextIntervalDaysByMastery :: "int \<Rightarrow> int" where
  "getNextIntervalDaysByMastery masteryLevel =
     (let idx = max 0 (min masteryLevel (int (length mapping) - 1))
      in mapping ! nat idx)"

subsection \<open>Progress records\<close>

text \<open>
  A row of the \<^verbatim>\<open>userProgress\<close> table. Times are milliseconds since the epoch, as
  \<^verbatim>\<open>Date.getTime()\<close> gives them. Row identifiers are generated by the database; they are
  modelled as natural numbers, a new row taking one larger than every identifier in use.
  The database is taken to accept every row it is given: a write refused by a constraint of
  the schema, which is not among the sources, is a storage failure outside the model.
\<close>

record user_progress =
  rowId :: nat
  userId :: string
  topicId :: string
  masteryLevel :: int
  lastReviewed :: "int option"
  nextReview :: "int option"
  updatedAt :: int

type_synonym progress_table = "user_progress list"

text \<open>\<^verbatim>\<open>prisma.userProgress.findFirst({ where: { userId, topicId } })\<close>\<close>

definition findFirst :: "string \<Rightarrow> string \<Rightarrow> progress_table \<Rightarrow> user_progress option" where
  "findFirst uid tid rows = find (\<lambda>r. userId r = uid \<and> topicId r = tid) rows"

definition freshId :: "progress_table \<Rightarrow> nat" where
  "freshId rows = Suc (fold max (map rowId rows) 0)"

text \<open>
  Modelled from the spec: the table's schema is not among the sources; \<open>updatedAt\<close>, the
  column the due list orders by ("most recently updated"), is taken to be stamped with the
  current time whenever a row is written, here and in \<open>writeReview\<close>. The rest is
  \<^verbatim>\<open>prisma.userProgress.create({ data: { userId, topicId, masteryLevel: 0 } })\<close>: the two
  dates are unset in a new row.
\<close>

definition createProgress :: "int \<Rightarrow> string \<Rightarrow> string \<Rightarrow> progress_table \<Rightarrow> user_progress \<times> progress_table" where
  "createProgress now uid tid rows =
     (let r = \<lparr> rowId = freshId rows, userId = uid, topicId = tid, masteryLevel = 0,
                lastReviewed = None, nextReview = None, updatedAt = now \<rparr>
      in (r, rows @ [r]))"

text \<open>
  \<^verbatim>\<open>prisma.userProgress.update({ where: { id }, data: { masteryLevel, lastReviewed, nextReview } })\<close>
  returns the written row, and throws when no row has the identifier.
\<close>

definition writeReview :: "int \<Rightarrow> int \<Rightarrow> int \<Rightarrow> user_progress \<Rightarrow> user_progress" where
  "writeReview newMastery now next r =
     r\<lparr> masteryLevel := newMastery, lastReviewed := Some now, nextReview := Some next,
        updatedAt := now \<rparr>"

definition updateProgress ::
  "nat \<Rightarrow> int \<Rightarrow> int \<Rightarrow> int \<Rightarrow> progress_table \<Rightarrow> (user_progress \<times> progress_table) option" where
  "updateProgress i newMastery now next rows =
     (case find (\<lambda>r. rowId r = i) rows of
        None \<Rightarrow> None
      | Some r \<Rightarrow>
          Some (writeReview newMastery now next r,
                map (\<lambda>r. if rowId r = i then writeReview newMastery now next r else r) rows))"

subsection \<open>Grading\<close>

text \<open>The body of a successful answer: \<^verbatim>\<open>{ success: true, masteryLevel, nextReview }\<close>.\<close>

datatype grade_response = GradeOk int "int option"

definition dayMs :: int where
  "dayMs = 24 * 60 * 60 * 1000"

text \<open>
  \<^verbatim>\<open>app.post('/api/review/grade')\<close> of the first server version, after its
  \<^verbatim>\<open>requireAuth\<close> has written the user into \<^verbatim>\<open>req.userId\<close>, which the handler reads. The
  request body carries \<^verbatim>\<open>topicId?: string\<close> and \<^verbatim>\<open>quality?: number\<close>; \<^verbatim>\<open>!topicId\<close>
  holds for a missing and for an empty string. The result pairs the answer with the table
  after the request.
\<close>

definition review_grade ::
  "int \<Rightarrow> string \<Rightarrow> string option \<Rightarrow> int option \<Rightarrow> progress_table
     \<Rightarrow> (error + grade_response) \<times> progress_table" where
  "review_grade now uid topicIdOpt qualityOpt rows =
     (case (topicIdOpt, qualityOpt) of
        (Some tid, Some quality) \<Rightarrow>
          if tid = [] then (Inl (InvalidInput FieldsRequired), rows)
          else if quality < 0 \<or> quality > 5 then (Inl (InvalidInput QualityOutOfRange), rows)
          else
            let (progress, rows1) =
                  (case findFirst uid tid rows of
                     Some p \<Rightarrow> (p, rows)
                   | None \<Rightarrow> createProgress now uid tid rows);
                newMastery = (if quality \<ge> 3 then min 5 (masteryLevel progress + 1) else 0);
                nextDays = (if quality \<ge> 3 then getNextIntervalDaysByMastery newMastery else 1);
                next = now + nextDays * dayMs
            in (case updateProgress (rowId progress) newMastery now next rows1 of
                  None \<Rightarrow> (Inl InternalError, rows1)
                | Some (updated, rows2) \<Rightarrow>
                    (Inr (GradeOk (masteryLevel updated) (nextReview updated)), rows2))
      | _ \<Rightarrow> (Inl (InvalidInput FieldsRequired), rows))"

text \<open>The level a topic has before a grading event: that of the row found, 0 for a new row.\<close>

definition previousLevel :: "string \<Rightarrow> string \<Rightarrow> progress_table \<Rightarrow> int" where
  "previousLevel uid tid rows =
     (case findFirst uid tid rows of Some p \<Rightarrow> masteryLevel p | None \<Rightarrow> 0)"

subsection \<open>The authenticated request\<close>

text \<open>
  \<^verbatim>\<open>requireAuth\<close> verifies the token and hands the user of its payload on to the handler
  in a field of the request. The first server version of \<^verbatim>\<open>src/index.ts\<close> writes
  \<^verbatim>\<open>(req as any).userId = payload.userId\<close>; the second writes
  \<^verbatim>\<open>req.user = { id: payload.userId, username: '' }\<close>. A field that was never written
  reads as \<^verbatim>\<open>undefined\<close>.
\<close>

record request =
  reqUserId :: "string option"
  reqUser :: "string option"

definition incoming :: request where
  "incoming = \<lparr> reqUserId = None, reqUser = None \<rparr>"

definition requireAuth_first :: "string \<Rightarrow> request \<Rightarrow> request" where
  "requireAuth_first payloadUserId req = req\<lparr> reqUserId := Some payloadUserId \<rparr>"

definition requireAuth_second :: "string \<Rightarrow> request \<Rightarrow> request" where
  "requireAuth_second payloadUserId req = req\<lparr> reqUser := Some payloadUserId \<rparr>"

text \<open>
  A condition \<^verbatim>\<open>{ userId }\<close> of a \<^verbatim>\<open>where\<close> clause: the query builder leaves out a
  condition whose value is \<^verbatim>\<open>undefined\<close>, so that every row passes it.
\<close>

fun whereEquals :: "string option \<Rightarrow> string \<Rightarrow> bool" where
  "whereEquals None v = True"
| "whereEquals (Some x) v = (v = x)"

subsection \<open>Due items\<close>

text \<open>
  Where an ascending order puts the rows without a \<open>nextReview\<close> is decided by the
  database: the query names no placement. It is a parameter of the model. The search
  handlers of the same file use \<^verbatim>\<open>mode: 'insensitive'\<close>, which among the SQL databases
  of the query builder only PostgreSQL accepts; PostgreSQL puts them last.
\<close>

datatype null_order = NullsFirst | NullsLast

text \<open>
  \<^verbatim>\<open>orderBy: [{ nextReview: 'asc' }, { updatedAt: 'desc' }]\<close>: the sort key of a row.
  Keys are compared lexicographically. The first component places the rows without a date,
  the second is the date, and the third is the time of the last update, negated so that
  the later update comes first.
\<close>

definition dueKey :: "null_order \<Rightarrow> user_progress \<Rightarrow> int \<times> int \<times> int" where
  "dueKey nulls r =
     (case nextReview r of
        None \<Rightarrow> (case nulls of NullsFirst \<Rightarrow> 0 | NullsLast \<Rightarrow> 2, 0, - updatedAt r)
      | Some t \<Rightarrow> (1, t, - updatedAt r))"

text \<open>The same order written out: \<open>a\<close> may stand before \<open>b\<close> in the answer.\<close>

definition dueOrder :: "null_order \<Rightarrow> user_progress \<Rightarrow> user_progress \<Rightarrow> bool" where
  "dueOrder nulls a b =
     (case (nextReview a, nextReview b) of
        (None, None) \<Rightarrow> updatedAt a \<ge> updatedAt b
      | (None, Some y) \<Rightarrow> nulls = NullsFirst
      | (Some x, None) \<Rightarrow> nulls = NullsLast
      | (Some x, Some y) \<Rightarrow> x < y \<or> (x = y \<and> updatedAt a \<ge> updatedAt b))"

text \<open>
  \<^verbatim>\<open>app.get('/api/review/due')\<close> of the second server version, the one that selects by
  mastery level: \<^verbatim>\<open>where: { userId, masteryLevel: { lt: 3 } }\<close>, \<^verbatim>\<open>take: 20\<close>. The handler
  takes the user from \<^verbatim>\<open>(req as any).userId\<close>.
\<close>

definition notMastered :: "string option \<Rightarrow> user_progress \<Rightarrow> bool" where
  "notMastered userIdArg r = (whereEquals userIdArg (userId r) \<and> masteryLevel r < 3)"

definition dueRows :: "null_order \<Rightarrow> string option \<Rightarrow> progress_table \<Rightarrow> user_progress list" where
  "dueRows nulls userIdArg rows =
     take 20 (sort_key (dueKey nulls) (filter (notMastered userIdArg) rows))"

text \<open>
  An item of the answer. The columns joined in from the topic and its subject (titles,
  slug, question count, difficulty) only decorate an item and are left out.
\<close>

datatype due_item = DueItem (itemTopicId: string) (itemMasteryLevel: int) (itemNextReview: "int option")

datatype due_response = DueResponse (total: nat) (items: "due_item list")

definition dueItem :: "user_progress \<Rightarrow> due_item" where
  "dueItem d = DueItem (topicId d) (masteryLevel d) (nextReview d)"

definition review_due :: "null_order \<Rightarrow> request \<Rightarrow> progress_table \<Rightarrow> due_response" where
  "review_due nulls req rows =
     (let userIdArg = reqUserId req;
          due = dueRows nulls userIdArg rows
      in DueResponse (length due) (map dueItem due))"

text \<open>
  The same endpoint of the first server version selects by date instead:
  \<^verbatim>\<open>where: { userId, OR: [{ nextReview: { lte: new Date() } }, { nextReview: null }] }\<close>.
\<close>

definition dueByDate :: "int \<Rightarrow> string option \<Rightarrow> user_progress \<Rightarrow> bool" where
  "dueByDate now userIdArg r =
     (whereEquals userIdArg (userId r)
      \<and> (case nextReview r of None \<Rightarrow> True | Some t \<Rightarrow> t \<le> now))"

definition review_due_first ::
  "null_order \<Rightarrow> int \<Rightarrow> request \<Rightarrow> progress_table \<Rightarrow> due_response" where
  "review_due_first nulls now req rows =
     (let userIdArg = reqUserId req;
          due = take 20 (sort_key (dueKey nulls) (filter (dueByDate now userIdArg) rows))
      in DueResponse (length due) (map dueItem due))"

subsection \<open>Summary\<close>

text \<open>
  A row of the \<^verbatim>\<open>quizAttempt\<close> table, as far as the summary reads it. Scores are whole
  numbers.
\<close>

record quiz_attempt =
  attemptUserId :: string
  score :: int

text \<open>\<^verbatim>\<open>Math.round\<close> rounds to the nearest integer, a half towards \<open>+\<infinity>\<close>.\<close>

definition mathRound :: "real \<Rightarrow> int" where
  "mathRound x = \<lfloor>x + 1 / 2\<rfloor>"

datatype summary =
  Summary (totalAttempts: nat) (avgScore: int) (masteredTopics: nat) (totalTrackedTopics: nat)
    (dueCount: nat)

text \<open>
  \<^verbatim>\<open>app.get('/api/progress/summary')\<close> of the second server version, the one that counts
  the due topics by mastery level. It takes the user from \<^verbatim>\<open>(req as any).userId\<close> and
  reads both tables with \<^verbatim>\<open>where: { userId }\<close>.
  \<^verbatim>\<open>attempts.reduce((s, a) => s + a.score, 0)\<close> is the fold.
\<close>

definition progress_summary :: "request \<Rightarrow> quiz_attempt list \<Rightarrow> progress_table \<Rightarrow> summary" where
  "progress_summary req attemptTable rows =
     (let userIdArg = reqUserId req;
          attempts = filter (\<lambda>a. whereEquals userIdArg (attemptUserId a)) attemptTable;
          progress = filter (\<lambda>p. whereEquals userIdArg (userId p)) rows;
          totalAttempts = length attempts;
          avgScore = (if totalAttempts > 0
                      then mathRound (real_of_int (fold (\<lambda>a s. s + score a) attempts 0)
                                        / real totalAttempts)
                      else 0);
          masteredTopics = length (filter (\<lambda>p. masteryLevel p \<ge> 3) progress);
          dueCount = length (filter (\<lambda>p. masteryLevel p < 3) progress)
      in Summary totalAttempts avgScore masteredTopics (length progress) dueCount)"

text \<open>
  The same endpoint of the first server version counts the rows whose review date has
  come: \<^verbatim>\<open>prisma.userProgress.count({ where: { userId, nextReview: { lte: new Date() } } })\<close>.
\<close>

definition progress_summary_first ::
  "int \<Rightarrow> request \<Rightarrow> quiz_attempt list \<Rightarrow> progress_table \<Rightarrow> summary" where
  "progress_summary_first now req attemptTable rows =
     (let userIdArg = reqUserId req;
          attempts = filter (\<lambda>a. whereEquals userIdArg (attemptUserId a)) attemptTable;
          progress = filter (\<lambda>p. whereEquals userIdArg (userId p)) rows;
          dueCount = length (filter (\<lambda>p. whereEquals userIdArg (userId p)
                                \<and> (case nextReview p of None \<Rightarrow> False | Some t \<Rightarrow> t \<le> now))
                        rows);
          totalAttempts = length attempts;
          avgScore = (if totalAttempts > 0
                      then mathRound (real_of_int (fold (\<lambda>a s. s + score a) attempts 0)
                                        / real totalAttempts)
                      else 0);
          masteredTopics = length (filter (\<lambda>p. masteryLevel p \<ge> 3) progress)
      in Summary totalAttempts avgScore masteredTopics (length progress) dueCount)"

section \<open>One-time codes\<close>

subsection \<open>Code generation\<close>

text \<open>
  \<^verbatim>\<open>Math.floor(100000 + Math.random() * 900000).toString()\<close>. The random draw is an input
  of the model: \<open>rnd\<close> stands for \<^verbatim>\<open>Math.floor(Math.random() * 900000)\<close>. \<open>toString\<close>
  writes a number in decimal.
\<close>

definition digitChar :: "nat \<Rightarrow> char" where
  "digitChar d = ''0123456789'' ! d"

fun toString :: "nat \<Rightarrow> string" where
  "toString n = (if n < 10 then [digitChar n] else toString (n div 10) @ [digitChar (n mod 10)])"

declare toString.simps [simp del]

definition generateCode :: "nat \<Rightarrow> string" where
  "generateCode rnd = toString (100000 + rnd)"

definition fiveMinutes :: int where
  "fiveMinutes = 5 * 60 * 1000"

subsection \<open>The registry\<close>

text \<open>
  \<^verbatim>\<open>global.authCodes\<close> is a \<^verbatim>\<open>Map\<close> from the code to its record, or \<^verbatim>\<open>undefined\<close> before the
  first code is issued. \<^verbatim>\<open>global.authCodes || new Map()\<close> reads it.
\<close>

type_synonym 'a registry = "(string \<rightharpoonup> 'a) option"

definition codesOf :: "'a registry \<Rightarrow> (string \<rightharpoonup> 'a)" where
  "codesOf g = (case g of None \<Rightarrow> Map.empty | Some m \<Rightarrow> m)"

text \<open>
  \<^verbatim>\<open>authCodes.delete(code)\<close> on the map read from the global: the global map itself loses
  the entry; a fresh map made by \<^verbatim>\<open>new Map()\<close> is dropped with the request.
\<close>

definition deleteCode :: "string \<Rightarrow> 'a registry \<Rightarrow> 'a registry" where
  "deleteCode code g = map_option (\<lambda>m. m(code := None)) g"

datatype log_entry = Log string | Warn string | Error string

text \<open>
  What the outbound call does is an input of the model: it returns (for SMS, with whatever
  answer the gateway gives, which is only logged) or it throws.
\<close>

datatype delivery = Delivered | DeliveryThrew

datatype issued = CodeSent

datatype verified = Verified nat "string option" "string option"

subsection \<open>Email and SMS codes\<close>

text \<open>\<^verbatim>\<open>Map<string, { email?: string; phone?: string; expiresAt: Date }>\<close>\<close>

record auth_code =
  email :: "string option"
  phone :: "string option"
  expiresAt :: int

record user =
  user_id :: nat
  user_username :: "string option"
  user_email :: "string option"
  user_phone :: "string option"
  user_name :: "string option"

record auth_state =
  authCodes :: "auth_code registry"
  users :: "user list"
  console :: "log_entry list"

text \<open>
  Users get their identifiers as progress rows do, and creating a user is taken to succeed.
\<close>

definition freshUserId :: "user list \<Rightarrow> nat" where
  "freshUserId us = Suc (fold max (map user_id us) 0)"

text \<open>\<^verbatim>\<open>app.post('/api/auth/send-email-code')\<close>\<close>

definition send_email_code ::
  "int \<Rightarrow> nat \<Rightarrow> delivery \<Rightarrow> string option \<Rightarrow> auth_state \<Rightarrow> (error + issued) \<times> auth_state" where
  "send_email_code now rnd sendMail emailOpt st =
     (case emailOpt of
        None \<Rightarrow> (Inl (InvalidInput FieldsRequired), st)
      | Some em \<Rightarrow>
          if em = [] then (Inl (InvalidInput FieldsRequired), st)
          else
            let code = generateCode rnd;
                expires = now + fiveMinutes;
                codes = (codesOf (authCodes st))
                          (code \<mapsto> \<lparr> email = Some em, phone = None, expiresAt = expires \<rparr>);
                st1 = st\<lparr> authCodes := Some codes \<rparr>;
                st2 = (case sendMail of
                         Delivered \<Rightarrow>
                           st1\<lparr> console := console st1
                                  @ [Log (''Email sent to '' @ em @ '' with code: '' @ code)] \<rparr>
                       | DeliveryThrew \<Rightarrow>
                           st1\<lparr> console := console st1 @ [Error ''Email sending error:''] \<rparr>)
            in (Inr CodeSent, st2))"

text \<open>
  \<^verbatim>\<open>app.post('/api/auth/verify-email-code')\<close>. A record without an email address (one
  issued for a phone) makes \<^verbatim>\<open>codeData.email.split\<close> throw; the handler's \<^verbatim>\<open>catch\<close>
  answers 500 and the code stays.
\<close>

definition verify_email_code ::
  "int \<Rightarrow> string option \<Rightarrow> auth_state \<Rightarrow> (error + verified) \<times> auth_state" where
  "verify_email_code now codeOpt st =
     (case codeOpt of
        None \<Rightarrow> (Inl (InvalidInput FieldsRequired), st)
      | Some code \<Rightarrow>
          if code = [] then (Inl (InvalidInput FieldsRequired), st)
          else
            (case codesOf (authCodes st) code of
               None \<Rightarrow> (Inl InvalidCode, st)
             | Some codeData \<Rightarrow>
                 if now > expiresAt codeData
                 then (Inl CodeExpired, st\<lparr> authCodes := deleteCode code (authCodes st) \<rparr>)
                 else
                   (case email codeData of
                      None \<Rightarrow>
                        (Inl InternalError,
                         st\<lparr> console := console st @ [Error ''Error verifying code:''] \<rparr>)
                    | Some em \<Rightarrow>
                        let (u, us) =
                              (case find (\<lambda>u. user_email u = Some em) (users st) of
                                 Some u \<Rightarrow> (u, users st)
                               | None \<Rightarrow>
                                   (let u = \<lparr> user_id = freshUserId (users st),
                                              user_username = None, user_email = Some em,
                                              user_phone = None,
                                              user_name = Some (takeWhile (\<lambda>c. c \<noteq> CHR ''@'') em) \<rparr>
                                    in (u, users st @ [u])))
                        in (Inr (Verified (user_id u) (user_email u) (user_name u)),
                            st\<lparr> users := us, authCodes := deleteCode code (authCodes st) \<rparr>))))"

text \<open>
  \<^verbatim>\<open>app.post('/api/auth/send-sms-code')\<close>. \<open>smsApiId\<close> is the configured \<^verbatim>\<open>SMS_API_ID\<close>;
  without it no message is sent.
\<close>

definition send_sms_code ::
  "string \<Rightarrow> int \<Rightarrow> nat \<Rightarrow> delivery \<Rightarrow> string option \<Rightarrow> auth_state \<Rightarrow> (error + issued) \<times> auth_state" where
  "send_sms_code smsApiId now rnd sendSms phoneOpt st =
     (case phoneOpt of
        None \<Rightarrow> (Inl (InvalidInput FieldsRequired), st)
      | Some ph \<Rightarrow>
          if ph = [] then (Inl (InvalidInput FieldsRequired), st)
          else
            let code = generateCode rnd;
                expires = now + fiveMinutes;
                codes = (codesOf (authCodes st))
                          (code \<mapsto> \<lparr> email = None, phone = Some ph, expiresAt = expires \<rparr>);
                st1 = st\<lparr> authCodes := Some codes \<rparr>;
                entry = (if smsApiId = []
                         then Warn ''SMS_API_ID is not set; skipping actual SMS send''
                         else (case sendSms of
                                 Delivered \<Rightarrow> Log ''SMS.ru response:''
                               | DeliveryThrew \<Rightarrow> Error ''SMS sending error:''))
            in (Inr CodeSent, st1\<lparr> console := console st1 @ [entry] \<rparr>))"

text \<open>\<^verbatim>\<open>app.post('/api/auth/verify-sms-code')\<close>\<close>

definition verify_sms_code ::
  "int \<Rightarrow> string option \<Rightarrow> string option \<Rightarrow> auth_state \<Rightarrow> (error + verified) \<times> auth_state" where
  "verify_sms_code now codeOpt phoneOpt st =
     (case (codeOpt, phoneOpt) of
        (Some code, Some ph) \<Rightarrow>
          if code = [] \<or> ph = [] then (Inl (InvalidInput FieldsRequired), st)
          else
            (case codesOf (authCodes st) code of
               None \<Rightarrow> (Inl InvalidCode, st)
             | Some codeData \<Rightarrow>
                 if phone codeData \<noteq> Some ph then (Inl InvalidCode, st)
                 else if now > expiresAt codeData
                 then (Inl CodeExpired, st\<lparr> authCodes := deleteCode code (authCodes st) \<rparr>)
                 else
                   let (u, us) =
                         (case find (\<lambda>u. user_phone u = Some ph) (users st) of
                            Some u \<Rightarrow> (u, users st)
                          | None \<Rightarrow>
                              (let u = \<lparr> user_id = freshUserId (users st),
                                         user_username = None, user_email = None,
                                         user_phone = Some ph, user_name = Some ph \<rparr>
                               in (u, users st @ [u])))
                   in (Inr (Verified (user_id u) (user_phone u) (user_name u)),
                       st\<lparr> users := us, authCodes := deleteCode code (authCodes st) \<rparr>))
      | _ \<Rightarrow> (Inl (InvalidInput FieldsRequired), st))"

subsection \<open>Bot codes\<close>

text \<open>
  The server with the bot channel keeps \<^verbatim>\<open>Map<string, { telegramId: string; expiresAt: Date }>\<close>
  and has users with a bot identity.
\<close>

record bot_code =
  telegramId :: string
  botExpiresAt :: int

record bot_user =
  bot_user_id :: nat
  bot_user_telegramId :: string
  bot_user_email :: string

record bot_state =
  botAuthCodes :: "bot_code registry"
  botUsers :: "bot_user list"
  botConsole :: "log_entry list"

datatype bot_delivery = ResponseOk | ResponseNotOk | FetchThrew

text \<open>
  \<^verbatim>\<open>app.post('/api/auth/request-code')\<close>: the code goes into a map made by
  \<^verbatim>\<open>new Map()\<close>, and that map becomes \<^verbatim>\<open>global.authCodes\<close>.
\<close>

definition request_code ::
  "int \<Rightarrow> nat \<Rightarrow> bot_delivery \<Rightarrow> string option \<Rightarrow> bot_state \<Rightarrow> (error + issued) \<times> bot_state" where
  "request_code now rnd sendMessage telegramIdOpt st =
     (case telegramIdOpt of
        None \<Rightarrow> (Inl (InvalidInput FieldsRequired), st)
      | Some tg \<Rightarrow>
          if tg = [] then (Inl (InvalidInput FieldsRequired), st)
          else
            let code = generateCode rnd;
                expires = now + fiveMinutes;
                codes = Map.empty(code \<mapsto> \<lparr> telegramId = tg, botExpiresAt = expires \<rparr>);
                st1 = st\<lparr> botAuthCodes := Some codes \<rparr>;
                entry = (case sendMessage of
                           ResponseOk \<Rightarrow> Log ''Code sent to Telegram successfully''
                         | ResponseNotOk \<Rightarrow> Log ''Telegram error:''
                         | FetchThrew \<Rightarrow> Log ''Telegram error:'')
            in (Inr CodeSent, st1\<lparr> botConsole := botConsole st1 @ [entry] \<rparr>))"

text \<open>
  \<^verbatim>\<open>app.post('/api/auth/verify-code')\<close>. A new user gets the address
  \<^verbatim>\<open>${telegramId}@telegram.local\<close>; the name fields of the record are never set and stay
  empty.
\<close>

definition freshUserId_bot :: "bot_user list \<Rightarrow> nat" where
  "freshUserId_bot us = Suc (fold max (map bot_user_id us) 0)"

definition verify_code ::
  "int \<Rightarrow> string option \<Rightarrow> bot_state \<Rightarrow> (error + verified) \<times> bot_state" where
  "verify_code now codeOpt st =
     (case codeOpt of
        None \<Rightarrow> (Inl (InvalidInput FieldsRequired), st)
      | Some code \<Rightarrow>
          if code = [] then (Inl (InvalidInput FieldsRequired), st)
          else
            (case codesOf (botAuthCodes st) code of
               None \<Rightarrow> (Inl InvalidCode, st)
             | Some codeData \<Rightarrow>
                 if now > botExpiresAt codeData
                 then (Inl CodeExpired, st\<lparr> botAuthCodes := deleteCode code (botAuthCodes st) \<rparr>)
                 else
                   let tg = telegramId codeData;
                       (u, us) =
                         (case find (\<lambda>u. bot_user_telegramId u = tg) (botUsers st) of
                            Some u \<Rightarrow> (u, botUsers st)
                          | None \<Rightarrow>
                              (let u = \<lparr> bot_user_id = freshUserId_bot (botUsers st),
                                         bot_user_telegramId = tg,
                                         bot_user_email = tg @ ''@telegram.local'' \<rparr>
                               in (u, botUsers st @ [u])))
                   in (Inr (Verified (bot_user_id u) (Some (bot_user_telegramId u)) None),
                       st\<lparr> botUsers := us, botAuthCodes := deleteCode code (botAuthCodes st) \<rparr>)))"

section \<open>Example data\<close>

text \<open>
  A small progress table, a few quiz attempts and two registries, on which the theorems
  below are instantiated.
\<close>

definition exampleRows :: progress_table where
  "exampleRows =
     [\<lparr> rowId = 1, userId = ''u'', topicId = ''t1'', masteryLevel = 2,
         lastReviewed = Some 10, nextReview = Some 50, updatedAt = 10 \<rparr>,
      \<lparr> rowId = 2, userId = ''u'', topicId = ''t2'', masteryLevel = 0,
         lastReviewed = None, nextReview = None, updatedAt = 20 \<rparr>,
      \<lparr> rowId = 3, userId = ''u'', topicId = ''t3'', masteryLevel = 4,
         lastReviewed = Some 5, nextReview = None, updatedAt = 5 \<rparr>,
      \<lparr> rowId = 4, userId = ''v'', topicId = ''t1'', masteryLevel = 1,
         lastReviewed = None, nextReview = None, updatedAt = 7 \<rparr>]"

definition exampleAttempts :: "quiz_attempt list" where
  "exampleAttempts =
     [\<lparr> attemptUserId = ''u'', score = 3 \<rparr>, \<lparr> attemptUserId = ''v'', score = 10 \<rparr>,
      \<lparr> attemptUserId = ''u'', score = 4 \<rparr>]"

definition exampleCodes :: auth_state where
  "exampleCodes =
     \<lparr> authCodes = Some (Map.empty
          (''123456'' \<mapsto> \<lparr> email = Some ''ann@example.org'', phone = None, expiresAt = 5000 \<rparr>,
           ''654321'' \<mapsto> \<lparr> email = None, phone = Some ''+70000000001'', expiresAt = 5000 \<rparr>)),
       users = [], console = [] \<rparr>"

definition exampleBotCodes :: bot_state where
  "exampleBotCodes =
     \<lparr> botAuthCodes = Some (Map.empty
          (''111222'' \<mapsto> \<lparr> telegramId = ''4242'', botExpiresAt = 5000 \<rparr>)),
       botUsers = [], botConsole = [] \<rparr>"

section \<open>Properties of the review scheduler\<close>

lemma interval_cases:
  "getNextIntervalDaysByMastery l =
     (if l \<le> 0 then 1 else if l = 1 then 2 else if l = 2 then 4 else if l = 3 then 7
      else if l = 4 then 14 else 30)"
proof -
  consider "l \<le> 0" | "l = 1" | "l = 2" | "l = 3" | "l = 4" | "l \<ge> 5" by linarith
  then show ?thesis
    by cases (simp_all add: getNextIntervalDaysByMastery_def mapping_def min_def max_def)
qed

subsection \<open>The interval ladder\<close>

text \<open>
  Claim C2. For every level from 0 to 5 the interval is the entry of \<open>[1, 2, 4, 7, 14, 30]\<close>
  at that level; every level below 0 gets 1, the entry of level 0, and every level above 5
  gets 30, the entry of level 5.
\<close>

theorem interval_ladder:
  "(0 \<le> level \<and> level \<le> 5 \<longrightarrow> getNextIntervalDaysByMastery level = [1, 2, 4, 7, 14, 30] ! nat level)
   \<and> (level < 0 \<longrightarrow> getNextIntervalDaysByMastery level = 1)
   \<and> (level > 5 \<longrightarrow> getNextIntervalDaysByMastery level = 30)"
proof -
  consider "level < 0" | "level = 0" | "level = 1" | "level = 2" | "level = 3" | "level = 4"
    | "level = 5" | "level > 5" by linarith
  then show ?thesis by cases (simp_all add: interval_cases)
qed

theorem interval_ladder_witness:
  "getNextIntervalDaysByMastery 3 = 7 \<and> getNextIntervalDaysByMastery (- 2) = 1
   \<and> getNextIntervalDaysByMastery 9 = 30"
  using interval_ladder [of 3] interval_ladder [of "- 2"] interval_ladder [of 9] by simp

subsection \<open>Grading\<close>

lemma find_map_same:
  assumes "\<And>x. P (f x) = P x"
  shows "find P (map f xs) = map_option f (find P xs)"
  using assms by (induction xs) auto

lemma find_Some_rowId:
  assumes "p \<in> set rows"
  shows "\<exists>r. find (\<lambda>r. rowId r = rowId p) rows = Some r \<and> rowId r = rowId p"
  using assms by (induction rows) auto

lemma findFirst_Some_mem:
  "findFirst uid tid rows = Some p \<Longrightarrow> p \<in> set rows \<and> userId p = uid \<and> topicId p = tid"
  by (auto simp: findFirst_def find_Some_iff)

lemma findFirst_append_new:
  assumes "findFirst uid tid rows = None" and "userId r = uid" and "topicId r = tid"
  shows "findFirst uid tid (rows @ [r]) = Some r"
  using assms unfolding findFirst_def by (induction rows) (auto split: if_splits)

lemma findFirst_after_write:
  assumes "findFirst uid tid rows = Some p"
  shows "findFirst uid tid (map (\<lambda>r. if rowId r = rowId p then writeReview m now nxt r else r) rows)
           = Some (writeReview m now nxt p)"
proof -
  let ?f = "\<lambda>r. if rowId r = rowId p then writeReview m now nxt r else r"
  have "find (\<lambda>r. userId r = uid \<and> topicId r = tid) (map ?f rows)
          = map_option ?f (find (\<lambda>r. userId r = uid \<and> topicId r = tid) rows)"
    by (rule find_map_same) (simp add: writeReview_def)
  with assms show ?thesis by (simp add: findFirst_def)
qed

lemma updateProgress_mem:
  assumes "p \<in> set rows"
  shows "\<exists>u. updateProgress (rowId p) m now nxt rows =
           Some (u, map (\<lambda>r. if rowId r = rowId p then writeReview m now nxt r else r) rows)
         \<and> masteryLevel u = m \<and> nextReview u = Some nxt"
proof -
  from find_Some_rowId [OF assms] obtain r where "find (\<lambda>r. rowId r = rowId p) rows = Some r"
    by blast
  then show ?thesis by (simp add: updateProgress_def writeReview_def)
qed

lemma review_grade_valid:
  fixes now :: int and uid tid :: string and quality :: int and rows :: progress_table
  assumes "tid \<noteq> []" and "0 \<le> quality" and "quality \<le> 5"
  defines "m \<equiv> (if quality \<ge> 3 then min 5 (previousLevel uid tid rows + 1) else 0)"
  defines "nxt \<equiv> now + (if quality \<ge> 3 then getNextIntervalDaysByMastery m else 1) * dayMs"
  shows "\<exists>rows'. review_grade now uid (Some tid) (Some quality) rows
                     = (Inr (GradeOk m (Some nxt)), rows')
               \<and> findFirst uid tid rows' = Some (writeReview m now nxt
                    (case findFirst uid tid rows of Some p \<Rightarrow> p
                     | None \<Rightarrow> fst (createProgress now uid tid rows)))"
proof (cases "findFirst uid tid rows")
  case None
  define r where "r = fst (createProgress now uid tid rows)"
  have cr: "createProgress now uid tid rows = (r, rows @ [r])"
    by (simp add: r_def createProgress_def Let_def)
  have r: "userId r = uid" "topicId r = tid" "masteryLevel r = 0"
    by (simp_all add: r_def createProgress_def Let_def)
  have ff: "findFirst uid tid (rows @ [r]) = Some r"
    using None r by (simp add: findFirst_append_new)
  have mem: "r \<in> set (rows @ [r])" by simp
  have m: "m = (if quality \<ge> 3 then min 5 (masteryLevel r + 1) else 0)"
    using None r by (simp add: m_def previousLevel_def)
  from updateProgress_mem [OF mem, of m now nxt] obtain u where
    u: "updateProgress (rowId r) m now nxt (rows @ [r]) =
          Some (u, map (\<lambda>x. if rowId x = rowId r then writeReview m now nxt x else x) (rows @ [r]))"
       "masteryLevel u = m" "nextReview u = Some nxt"
    by blast
  have "review_grade now uid (Some tid) (Some quality) rows =
          (Inr (GradeOk m (Some nxt)),
           map (\<lambda>x. if rowId x = rowId r then writeReview m now nxt x else x) (rows @ [r]))"
    using assms(1-3) None cr u unfolding review_grade_def nxt_def m
    by (simp add: Let_def)
  moreover have "findFirst uid tid
      (map (\<lambda>x. if rowId x = rowId r then writeReview m now nxt x else x) (rows @ [r]))
        = Some (writeReview m now nxt r)"
    by (rule findFirst_after_write [OF ff])
  ultimately show ?thesis using None by (simp add: r_def)
next
  case (Some p)
  have mem: "p \<in> set rows" using Some by (simp add: findFirst_Some_mem)
  have m: "m = (if quality \<ge> 3 then min 5 (masteryLevel p + 1) else 0)"
    using Some by (simp add: m_def previousLevel_def)
  from updateProgress_mem [OF mem, of m now nxt] obtain u where
    u: "updateProgress (rowId p) m now nxt rows =
          Some (u, map (\<lambda>x. if rowId x = rowId p then writeReview m now nxt x else x) rows)"
       "masteryLevel u = m" "nextReview u = Some nxt"
    by blast
  have "review_grade now uid (Some tid) (Some quality) rows =
          (Inr (GradeOk m (Some nxt)),
           map (\<lambda>x. if rowId x = rowId p then writeReview m now nxt x else x) rows)"
    using assms(1-3) Some u unfolding review_grade_def nxt_def m
    by (simp add: Let_def)
  moreover have "findFirst uid tid
      (map (\<lambda>x. if rowId x = rowId p then writeReview m now nxt x else x) rows)
        = Some (writeReview m now nxt p)"
    by (rule findFirst_after_write [OF Some])
  ultimately show ?thesis using Some by simp
qed

text \<open>
  Claim C1. A grading event for a topic (a non-empty \<open>topicId\<close>) with a quality from 0
  to 5 succeeds, and afterwards the first record of the table for that user and topic is
  the graded one. For a quality of 3 or more its level is the smaller of 5 and the previous
  level plus 1, the previous level being that of the first record for the user and topic
  before the event and 0 when there was none, and its next review is now plus the interval
  of the new level in days of 86400000 milliseconds; for a quality below 3 its level is 0
  and its next review is now plus one day. In both cases its last review is now, and the
  answer carries the stored level and next review.
\<close>

theorem grade_updates_level_and_schedule:
  assumes "tid \<noteq> []" and "0 \<le> quality" and "quality \<le> 5"
  shows "\<exists>rows' p'.
           review_grade now uid (Some tid) (Some quality) rows
             = (Inr (GradeOk (masteryLevel p') (nextReview p')), rows')
         \<and> find (\<lambda>r. userId r = uid \<and> topicId r = tid) rows' = Some p'
         \<and> p' \<in> set rows' \<and> userId p' = uid \<and> topicId p' = tid
         \<and> lastReviewed p' = Some now
         \<and> (quality \<ge> 3 \<longrightarrow>
              masteryLevel p'
                = min 5 ((case find (\<lambda>r. userId r = uid \<and> topicId r = tid) rows of
                            Some p \<Rightarrow> masteryLevel p | None \<Rightarrow> 0) + 1)
            \<and> nextReview p'
                = Some (now + getNextIntervalDaysByMastery (masteryLevel p') * 86400000))
         \<and> (quality < 3 \<longrightarrow> masteryLevel p' = 0 \<and> nextReview p' = Some (now + 1 * 86400000))"
proof -
  from review_grade_valid [OF assms, of now uid rows] obtain rows' p' m nxt where
    g: "review_grade now uid (Some tid) (Some quality) rows = (Inr (GradeOk m (Some nxt)), rows')"
    and f: "findFirst uid tid rows' = Some p'"
    and p': "p' = writeReview m now nxt (case findFirst uid tid rows of Some p \<Rightarrow> p
                     | None \<Rightarrow> fst (createProgress now uid tid rows))"
    and m: "m = (if quality \<ge> 3 then min 5 (previousLevel uid tid rows + 1) else 0)"
    and nxt: "nxt = now + (if quality \<ge> 3 then getNextIntervalDaysByMastery m else 1) * dayMs"
    by blast
  from f have mem: "p' \<in> set rows' \<and> userId p' = uid \<and> topicId p' = tid"
    by (rule findFirst_Some_mem)
  from f have f': "find (\<lambda>r. userId r = uid \<and> topicId r = tid) rows' = Some p'"
    by (simp add: findFirst_def)
  have prev: "previousLevel uid tid rows
                = (case find (\<lambda>r. userId r = uid \<and> topicId r = tid) rows of
                     Some p \<Rightarrow> masteryLevel p | None \<Rightarrow> 0)"
    by (simp add: previousLevel_def findFirst_def)
  have day: "dayMs = 86400000" by (simp add: dayMs_def)
  have fields: "masteryLevel p' = m" "nextReview p' = Some nxt" "lastReviewed p' = Some now"
    by (simp_all add: p' writeReview_def)
  show ?thesis
    using g f' mem fields m nxt
    by (intro exI [of _ rows'] exI [of _ p']) (simp add: prev day)
qed

theorem grade_updates_level_and_schedule_witness:
  "''t'' \<noteq> [] \<and> (0::int) \<le> 5 \<and> (5::int) \<le> 5
   \<and> (\<exists>rows' p'. review_grade 1000 ''u'' (Some ''t'') (Some 5) []
                       = (Inr (GradeOk (masteryLevel p') (nextReview p')), rows')
                   \<and> find (\<lambda>r. userId r = ''u'' \<and> topicId r = ''t'') rows' = Some p'
                   \<and> userId p' = ''u'' \<and> topicId p' = ''t''
                   \<and> lastReviewed p' = Some 1000
                   \<and> masteryLevel p' = 1
                   \<and> nextReview p' = Some 172801000)"
  using grade_updates_level_and_schedule
          [where tid = "''t''" and quality = 5 and now = 1000 and uid = "''u''" and rows = "[]"]
  by (auto simp add: interval_cases)

text \<open>
  Claim C3. A grading request whose quality lies outside 0..5 fails with \<open>InvalidInput\<close>
  and leaves the table as it was: no progress record is created or updated.
\<close>

theorem grade_rejects_quality_out_of_range:
  assumes "quality < 0 \<or> quality > 5"
  shows "\<exists>why. review_grade now uid topicIdOpt (Some quality) rows = (Inl (InvalidInput why), rows)"
  using assms unfolding review_grade_def by (cases topicIdOpt) auto

theorem grade_rejects_quality_out_of_range_witness:
  "((6::int) < 0 \<or> (6::int) > 5) \<and> ((- 1::int) < 0 \<or> (- 1::int) > 5)
   \<and> (\<exists>why. review_grade 1000 ''u'' (Some ''t'') (Some 6) [] = (Inl (InvalidInput why), []))
   \<and> (\<exists>why. review_grade 1000 ''u'' (Some ''t'') (Some (- 1)) [] = (Inl (InvalidInput why), []))"
  using grade_rejects_quality_out_of_range
          [where quality = 6 and now = 1000 and uid = "''u''" and topicIdOpt = "Some ''t''"
             and rows = "[]"]
        grade_rejects_quality_out_of_range
          [where quality = "- 1" and now = 1000 and uid = "''u''" and topicIdOpt = "Some ''t''"
             and rows = "[]"]
  by simp

section \<open>Properties of the due list and the summary\<close>

subsection \<open>The queries\<close>

lemma dueKey_le: "dueKey nulls a \<le> dueKey nulls b \<longleftrightarrow> dueOrder nulls a b"
  by (cases nulls) (auto simp: dueKey_def dueOrder_def less_eq_prod_def split: option.splits)

lemma sorted_key_dueOrder:
  "sorted (map (dueKey nulls) xs) \<longleftrightarrow> sorted_wrt (dueOrder nulls) xs"
  by (simp add: sorted_map dueKey_le)

lemma dueRows_sorted: "sorted_wrt (dueOrder nulls) (dueRows nulls userIdArg rows)"
proof -
  have "sorted (map (dueKey nulls) (sort_key (dueKey nulls) (filter (notMastered userIdArg) rows)))"
    by (rule sorted_sort_key)
  then have "sorted_wrt (dueOrder nulls) (sort_key (dueKey nulls) (filter (notMastered userIdArg) rows))"
    by (simp only: sorted_key_dueOrder)
  then show ?thesis
    unfolding dueRows_def by (rule sorted_wrt_take)
qed

lemma dueRows_split:
  "mset (filter (notMastered userIdArg) rows)
     = mset (dueRows nulls userIdArg rows)
       + mset (drop 20 (sort_key (dueKey nulls) (filter (notMastered userIdArg) rows)))"
proof -
  let ?ys = "sort_key (dueKey nulls) (filter (notMastered userIdArg) rows)"
  have "mset ?ys = mset (take 20 ?ys @ drop 20 ?ys)" by simp
  then show ?thesis by (simp add: dueRows_def del: append_take_drop_id)
qed

lemma dueRows_rest_later:
  assumes "r \<in># mset (filter (notMastered userIdArg) rows) - mset (dueRows nulls userIdArg rows)"
    and "d \<in> set (dueRows nulls userIdArg rows)"
  shows "dueOrder nulls d r"
proof -
  let ?ys = "sort_key (dueKey nulls) (filter (notMastered userIdArg) rows)"
  have "sorted (map (dueKey nulls) ?ys)" by (rule sorted_sort_key)
  then have "sorted_wrt (dueOrder nulls) ?ys"
    by (simp only: sorted_key_dueOrder)
  with sorted_wrt_append [of "dueOrder nulls" "take 20 ?ys" "drop 20 ?ys"]
  have *: "\<forall>x \<in> set (take 20 ?ys). \<forall>y \<in> set (drop 20 ?ys). dueOrder nulls x y"
    by simp
  have "mset (filter (notMastered userIdArg) rows) - mset (dueRows nulls userIdArg rows)
          = mset (drop 20 ?ys)"
    by (simp only: dueRows_split [where nulls = nulls and userIdArg = userIdArg and rows = rows]
          add_diff_cancel_left')
  with assms(1) have "r \<in> set (drop 20 ?ys)"
    by (simp only: set_mset_mset)
  with assms(2) * show ?thesis by (simp add: dueRows_def)
qed

lemma dueRows_length:
  "length (dueRows nulls userIdArg rows) = min 20 (length (filter (notMastered userIdArg) rows))"
  by (simp add: dueRows_def)

text \<open>
  What the query of the due list returns for the user argument it is given: rows that pass
  the user condition and have a mastery level below 3, up to 20, sorted, the cap keeping
  the earliest.
\<close>

lemma dueRows_properties:
  "mset (dueRows nulls userIdArg rows)
      \<subseteq># mset (filter (\<lambda>r. whereEquals userIdArg (userId r) \<and> masteryLevel r < 3) rows)
   \<and> (\<forall>r \<in> set (dueRows nulls userIdArg rows).
         r \<in> set rows \<and> whereEquals userIdArg (userId r) \<and> masteryLevel r < 3)
   \<and> length (dueRows nulls userIdArg rows)
        = min 20 (length (filter (\<lambda>r. whereEquals userIdArg (userId r) \<and> masteryLevel r < 3) rows))
   \<and> sorted_wrt (dueOrder nulls) (dueRows nulls userIdArg rows)
   \<and> (\<forall>r. r \<in># mset (filter (\<lambda>r. whereEquals userIdArg (userId r) \<and> masteryLevel r < 3) rows)
                   - mset (dueRows nulls userIdArg rows)
          \<longrightarrow> (\<forall>d \<in> set (dueRows nulls userIdArg rows). dueOrder nulls d r))"
proof -
  have f: "filter (\<lambda>r. whereEquals userIdArg (userId r) \<and> masteryLevel r < 3) rows
             = filter (notMastered userIdArg) rows"
    by (simp add: notMastered_def [abs_def])
  have 2: "mset (dueRows nulls userIdArg rows) \<subseteq># mset (filter (notMastered userIdArg) rows)"
    by (metis dueRows_split mset_subset_eq_add_left)
  have 3: "\<forall>r \<in> set (dueRows nulls userIdArg rows).
             r \<in> set rows \<and> whereEquals userIdArg (userId r) \<and> masteryLevel r < 3"
  proof
    fix r assume "r \<in> set (dueRows nulls userIdArg rows)"
    then have "r \<in> set (sort_key (dueKey nulls) (filter (notMastered userIdArg) rows))"
      unfolding dueRows_def by (rule in_set_takeD)
    then show "r \<in> set rows \<and> whereEquals userIdArg (userId r) \<and> masteryLevel r < 3"
      by (simp add: notMastered_def)
  qed
  show ?thesis
    unfolding f using 2 3 dueRows_length dueRows_sorted dueRows_rest_later by blast
qed

lemma fold_score_sum:
  "fold (\<lambda>a s. s + score a) xs acc = acc + sum_list (map score xs)"
  by (induction xs arbitrary: acc) simp_all

lemma mathRound_bounds:
  "real_of_int (mathRound x) - 1 / 2 \<le> x \<and> x < real_of_int (mathRound x) + 1 / 2"
  unfolding mathRound_def by linarith

text \<open>
  What the summary computes from the user argument it is given: the counts of the rows
  that pass the user condition, and the mean of their scores rounded to the nearest
  integer.
\<close>

lemma progress_summary_counts:
  "totalAttempts (progress_summary req attemptTable rows)
      = length (filter (\<lambda>a. whereEquals (reqUserId req) (attemptUserId a)) attemptTable)
   \<and> (length (filter (\<lambda>a. whereEquals (reqUserId req) (attemptUserId a)) attemptTable) = 0
        \<longrightarrow> avgScore (progress_summary req attemptTable rows) = 0)
   \<and> (length (filter (\<lambda>a. whereEquals (reqUserId req) (attemptUserId a)) attemptTable) > 0
        \<longrightarrow> real_of_int (avgScore (progress_summary req attemptTable rows)) - 1 / 2
              \<le> real_of_int (sum_list (map score
                    (filter (\<lambda>a. whereEquals (reqUserId req) (attemptUserId a)) attemptTable)))
                  / real (length
                    (filter (\<lambda>a. whereEquals (reqUserId req) (attemptUserId a)) attemptTable))
          \<and> real_of_int (sum_list (map score
                    (filter (\<lambda>a. whereEquals (reqUserId req) (attemptUserId a)) attemptTable)))
                  / real (length
                    (filter (\<lambda>a. whereEquals (reqUserId req) (attemptUserId a)) attemptTable))
              < real_of_int (avgScore (progress_summary req attemptTable rows)) + 1 / 2)
   \<and> masteredTopics (progress_summary req attemptTable rows)
        = length (filter (\<lambda>p. whereEquals (reqUserId req) (userId p) \<and> masteryLevel p \<ge> 3) rows)
   \<and> totalTrackedTopics (progress_summary req attemptTable rows)
        = length (filter (\<lambda>p. whereEquals (reqUserId req) (userId p)) rows)
   \<and> dueCount (progress_summary req attemptTable rows)
        = length (filter (\<lambda>p. whereEquals (reqUserId req) (userId p) \<and> masteryLevel p < 3) rows)"
proof -
  let ?mine = "filter (\<lambda>a. whereEquals (reqUserId req) (attemptUserId a)) attemptTable"
  let ?s = "progress_summary req attemptTable rows"
  have ta: "totalAttempts ?s = length ?mine"
    by (simp add: progress_summary_def Let_def)
  have a0: "length ?mine = 0 \<longrightarrow> avgScore ?s = 0"
    by (simp add: progress_summary_def Let_def)
  have avg: "length ?mine > 0 \<Longrightarrow>
      avgScore ?s = mathRound (real_of_int (sum_list (map score ?mine)) / real (length ?mine))"
    by (simp add: progress_summary_def Let_def fold_score_sum)
  have a1: "length ?mine > 0 \<longrightarrow>
        real_of_int (avgScore ?s) - 1 / 2
              \<le> real_of_int (sum_list (map score ?mine)) / real (length ?mine)
          \<and> real_of_int (sum_list (map score ?mine)) / real (length ?mine)
              < real_of_int (avgScore ?s) + 1 / 2"
    using avg mathRound_bounds by simp
  have mt: "masteredTopics ?s
              = length (filter (\<lambda>p. whereEquals (reqUserId req) (userId p) \<and> masteryLevel p \<ge> 3) rows)"
    by (simp add: progress_summary_def Let_def conj_commute)
  have tt: "totalTrackedTopics ?s = length (filter (\<lambda>p. whereEquals (reqUserId req) (userId p)) rows)"
    by (simp add: progress_summary_def Let_def)
  have dc: "dueCount ?s
              = length (filter (\<lambda>p. whereEquals (reqUserId req) (userId p) \<and> masteryLevel p < 3) rows)"
    by (simp add: progress_summary_def Let_def conj_commute)
  show ?thesis using ta a0 a1 mt tt dc by blast
qed

subsection \<open>The user of the request\<close>

text \<open>
  The handlers of the second server version read a field of the request that its
  \<^verbatim>\<open>requireAuth\<close> does not write, so their user argument is \<^verbatim>\<open>undefined\<close> and every row
  passes the user condition.
\<close>

lemma second_version_user_undefined:
  "reqUserId (requireAuth_second payloadUserId incoming) = None
   \<and> reqUserId (requireAuth_first payloadUserId incoming) = Some payloadUserId"
  by (simp add: requireAuth_second_def requireAuth_first_def incoming_def)

text \<open>
  Claim C6 says that the due list of a user holds exactly that user's progress records with
  a mastery level below 3, ordered by next review ascending with unset dates first. The
  code does otherwise. On the example table, where user \<open>u\<close> has two such records and user
  \<open>v\<close> has one, the request of \<open>u\<close> and the request of \<open>v\<close> are both answered with all
  three records; and with a database that puts unset dates last, the record with a date
  comes first.
\<close>

theorem due_list_lists_every_user:
  "review_due NullsLast (requireAuth_second ''u'' incoming) exampleRows
     = DueResponse 3 [DueItem ''t1'' 2 (Some 50), DueItem ''t2'' 0 None, DueItem ''t1'' 1 None]
   \<and> review_due NullsLast (requireAuth_second ''v'' incoming) exampleRows
     = DueResponse 3 [DueItem ''t1'' 2 (Some 50), DueItem ''t2'' 0 None, DueItem ''t1'' 1 None]
   \<and> map userId (dueRows NullsLast (reqUserId (requireAuth_second ''u'' incoming)) exampleRows)
     = [''u'', ''u'', ''v'']
   \<and> review_due NullsFirst (requireAuth_second ''u'' incoming) exampleRows
     = DueResponse 3 [DueItem ''t2'' 0 None, DueItem ''t1'' 1 None, DueItem ''t1'' 2 (Some 50)]
   \<and> length (filter (\<lambda>r. userId r = ''u'' \<and> masteryLevel r < 3) exampleRows) = 2"
  by (simp add: review_due_def dueRows_def notMastered_def dueKey_def sort_key_def dueItem_def
        requireAuth_second_def incoming_def exampleRows_def)

text \<open>
  Given the user, the same query lists that user's records only; the first server version
  hands the user over, but its due list selects by date.
\<close>

lemma due_list_with_user:
  "map rowId (dueRows NullsFirst (Some ''u'') exampleRows) = [2, 1]
   \<and> map rowId (dueRows NullsLast (Some ''u'') exampleRows) = [1, 2]
   \<and> review_due_first NullsLast 30 (requireAuth_first ''u'' incoming) exampleRows
       = DueResponse 2 [DueItem ''t2'' 0 None, DueItem ''t3'' 4 None]"
  by (simp add: review_due_first_def dueByDate_def dueRows_def notMastered_def dueKey_def
        sort_key_def dueItem_def requireAuth_first_def incoming_def exampleRows_def)

text \<open>
  Claim C7 says that the summary of a user counts that user's attempts and topics, with the
  due count by mastery level. The code does otherwise. On the example tables user \<open>u\<close> has
  two attempts with scores 3 and 4, three tracked topics, one mastered and two below level
  3; user \<open>v\<close> has one attempt and one topic. The second server version answers the request
  of either user with the counts over both users' rows.
\<close>

theorem summary_counts_every_user:
  "progress_summary (requireAuth_second ''u'' incoming) exampleAttempts exampleRows
     = Summary 3 6 1 4 3
   \<and> progress_summary (requireAuth_second ''v'' incoming) exampleAttempts exampleRows
     = Summary 3 6 1 4 3
   \<and> length (filter (\<lambda>a. attemptUserId a = ''u'') exampleAttempts) = 2
   \<and> length (filter (\<lambda>p. userId p = ''u'') exampleRows) = 3
   \<and> length (filter (\<lambda>p. userId p = ''u'' \<and> masteryLevel p < 3) exampleRows) = 2"
  by (simp add: progress_summary_def mathRound_def requireAuth_second_def incoming_def
        exampleAttempts_def exampleRows_def Let_def)

text \<open>
  The first server version hands the user over and counts that user's rows, but its due
  count goes by date: no record of \<open>u\<close> is due at time 30, while two are below level 3.
\<close>

lemma summary_first_version:
  "progress_summary_first 30 (requireAuth_first ''u'' incoming) exampleAttempts exampleRows
     = Summary 2 4 1 3 0"
  by (simp add: progress_summary_first_def mathRound_def requireAuth_first_def incoming_def
        exampleAttempts_def exampleRows_def Let_def)

section \<open>Properties of the one-time codes\<close>

lemma codesOf_deleteCode: "codesOf (deleteCode c g) = (codesOf g)(c := None)"
  by (cases g) (simp_all add: codesOf_def deleteCode_def)

lemma codesOf_Some: "codesOf (Some m) = m"
  by (simp add: codesOf_def)

lemma toString_nonempty: "toString n \<noteq> []"
  by (subst toString.simps) simp

lemma generateCode_nonempty: "generateCode rnd \<noteq> []"
  by (simp add: generateCode_def toString_nonempty)

lemma generateCode_23456: "generateCode 23456 = ''123456''"
  by (simp add: generateCode_def toString.simps digitChar_def)

lemma verify_email_absent:
  assumes "code \<noteq> []" and "codesOf (authCodes st) code = None"
  shows "verify_email_code now (Some code) st = (Inl InvalidCode, st)"
  using assms by (simp add: verify_email_code_def)

lemma verify_email_expired:
  assumes "code \<noteq> []" and "codesOf (authCodes st) code = Some cd" and "now > expiresAt cd"
  shows "verify_email_code now (Some code) st
           = (Inl CodeExpired, st\<lparr> authCodes := deleteCode code (authCodes st) \<rparr>)"
  using assms by (simp add: verify_email_code_def)

lemma verify_email_live:
  assumes "code \<noteq> []" and "codesOf (authCodes st) code = Some cd" and "email cd = Some em"
    and "now \<le> expiresAt cd"
  shows "(\<exists>v. fst (verify_email_code now (Some code) st) = Inr v)
       \<and> authCodes (snd (verify_email_code now (Some code) st)) = deleteCode code (authCodes st)"
  using assms by (auto simp add: verify_email_code_def Let_def split: option.splits)

lemma verify_sms_absent:
  assumes "code \<noteq> []" and "ph \<noteq> []" and "codesOf (authCodes st) code = None"
  shows "verify_sms_code now (Some code) (Some ph) st = (Inl InvalidCode, st)"
  using assms by (simp add: verify_sms_code_def)

lemma verify_sms_mismatch:
  assumes "code \<noteq> []" and "ph \<noteq> []" and "codesOf (authCodes st) code = Some cd"
    and "phone cd \<noteq> Some ph"
  shows "verify_sms_code now (Some code) (Some ph) st = (Inl InvalidCode, st)"
  using assms by (simp add: verify_sms_code_def)

lemma verify_sms_expired:
  assumes "code \<noteq> []" and "ph \<noteq> []" and "codesOf (authCodes st) code = Some cd"
    and "phone cd = Some ph" and "now > expiresAt cd"
  shows "verify_sms_code now (Some code) (Some ph) st
           = (Inl CodeExpired, st\<lparr> authCodes := deleteCode code (authCodes st) \<rparr>)"
  using assms by (simp add: verify_sms_code_def)

lemma verify_sms_live:
  assumes "code \<noteq> []" and "ph \<noteq> []" and "codesOf (authCodes st) code = Some cd"
    and "phone cd = Some ph" and "now \<le> expiresAt cd"
  shows "(\<exists>v. fst (verify_sms_code now (Some code) (Some ph) st) = Inr v)
       \<and> authCodes (snd (verify_sms_code now (Some code) (Some ph) st))
           = deleteCode code (authCodes st)"
  using assms by (auto simp add: verify_sms_code_def Let_def split: option.splits)

lemma verify_sms_registry_change:
  assumes "authCodes (snd (verify_sms_code now codeOpt phoneOpt st)) \<noteq> authCodes st"
  shows "(\<exists>v. fst (verify_sms_code now codeOpt phoneOpt st) = Inr v)
         \<or> fst (verify_sms_code now codeOpt phoneOpt st) = Inl CodeExpired"
  using assms
  by (cases codeOpt; cases phoneOpt)
     (auto simp: verify_sms_code_def Let_def split: option.splits if_splits)

lemma verify_bot_absent:
  assumes "code \<noteq> []" and "codesOf (botAuthCodes st) code = None"
  shows "verify_code now (Some code) st = (Inl InvalidCode, st)"
  using assms by (simp add: verify_code_def)

lemma verify_bot_expired:
  assumes "code \<noteq> []" and "codesOf (botAuthCodes st) code = Some cd" and "now > botExpiresAt cd"
  shows "verify_code now (Some code) st
           = (Inl CodeExpired, st\<lparr> botAuthCodes := deleteCode code (botAuthCodes st) \<rparr>)"
  using assms by (simp add: verify_code_def)

lemma verify_bot_live:
  assumes "code \<noteq> []" and "codesOf (botAuthCodes st) code = Some cd"
    and "now \<le> botExpiresAt cd"
  shows "(\<exists>v. fst (verify_code now (Some code) st) = Inr v)
       \<and> botAuthCodes (snd (verify_code now (Some code) st))
           = deleteCode code (botAuthCodes st)"
  using assms by (auto simp add: verify_code_def Let_def split: option.splits)


lemma exampleCodes_lookup:
  "codesOf (authCodes exampleCodes) ''123456''
     = Some \<lparr> email = Some ''ann@example.org'', phone = None, expiresAt = 5000 \<rparr>"
  "codesOf (authCodes exampleCodes) ''654321''
     = Some \<lparr> email = None, phone = Some ''+70000000001'', expiresAt = 5000 \<rparr>"
  "codesOf (authCodes exampleCodes) ''999999'' = None"
  by (simp_all add: exampleCodes_def codesOf_def)

lemma exampleBotCodes_lookup:
  "codesOf (botAuthCodes exampleBotCodes) ''111222''
     = Some \<lparr> telegramId = ''4242'', botExpiresAt = 5000 \<rparr>"
  "codesOf (botAuthCodes exampleBotCodes) ''999999'' = None"
  by (simp_all add: exampleBotCodes_def codesOf_def)

text \<open>
  Claim C4, amended. A code is used once: when the registry holds a live code and a
  non-empty submission of it is verified on the endpoint of the channel it is bound to (the
  email endpoint for a code bound to an address, the SMS endpoint with the phone the code is
  bound to, the bot endpoint), the first call succeeds and removes the entry, and a second
  call with the same code fails with \<open>InvalidCode\<close>. A non-empty code that the registry
  does not hold fails with \<open>InvalidCode\<close> and leaves everything as it was.
\<close>

theorem code_single_use:
  "(code \<noteq> [] \<and> codesOf (authCodes st) code = Some cd \<and> email cd = Some em
      \<and> now \<le> expiresAt cd \<longrightarrow>
       (\<exists>v. fst (verify_email_code now (Some code) st) = Inr v)
     \<and> codesOf (authCodes (snd (verify_email_code now (Some code) st))) code = None
     \<and> fst (verify_email_code later (Some code) (snd (verify_email_code now (Some code) st)))
         = Inl InvalidCode)
   \<and> (code \<noteq> [] \<and> ph \<noteq> [] \<and> codesOf (authCodes st) code = Some cd \<and> phone cd = Some ph
      \<and> now \<le> expiresAt cd \<longrightarrow>
       (\<exists>v. fst (verify_sms_code now (Some code) (Some ph) st) = Inr v)
     \<and> codesOf (authCodes (snd (verify_sms_code now (Some code) (Some ph) st))) code = None
     \<and> fst (verify_sms_code later (Some code) (Some ph)
              (snd (verify_sms_code now (Some code) (Some ph) st)))
         = Inl InvalidCode)
   \<and> (code \<noteq> [] \<and> codesOf (botAuthCodes bst) code = Some bcd \<and> now \<le> botExpiresAt bcd \<longrightarrow>
       (\<exists>v. fst (verify_code now (Some code) bst) = Inr v)
     \<and> codesOf (botAuthCodes (snd (verify_code now (Some code) bst))) code = None
     \<and> fst (verify_code later (Some code) (snd (verify_code now (Some code) bst)))
         = Inl InvalidCode)
   \<and> (code \<noteq> [] \<and> codesOf (authCodes st) code = None \<longrightarrow>
       verify_email_code now (Some code) st = (Inl InvalidCode, st)
     \<and> (ph \<noteq> [] \<longrightarrow> verify_sms_code now (Some code) (Some ph) st = (Inl InvalidCode, st)))
   \<and> (code \<noteq> [] \<and> codesOf (botAuthCodes bst) code = None \<longrightarrow>
       verify_code now (Some code) bst = (Inl InvalidCode, bst))"
proof (intro conjI impI; (elim conjE)?)
  assume a: "code \<noteq> []" "codesOf (authCodes st) code = Some cd" "email cd = Some em"
    "now \<le> expiresAt cd"
  let ?r = "verify_email_code now (Some code) st"
  from verify_email_live [OF a] have ok: "\<exists>v. fst ?r = Inr v"
    and del: "authCodes (snd ?r) = deleteCode code (authCodes st)" by simp_all
  from del have gone: "codesOf (authCodes (snd ?r)) code = None"
    by (simp add: codesOf_deleteCode)
  show "\<exists>v. fst ?r = Inr v" by (rule ok)
  show "codesOf (authCodes (snd ?r)) code = None" by (rule gone)
  show "fst (verify_email_code later (Some code) (snd ?r)) = Inl InvalidCode"
    by (simp add: verify_email_absent [OF a(1) gone])
next
  assume a: "code \<noteq> []" "ph \<noteq> []" "codesOf (authCodes st) code = Some cd" "phone cd = Some ph"
    "now \<le> expiresAt cd"
  let ?r = "verify_sms_code now (Some code) (Some ph) st"
  from verify_sms_live [OF a] have ok: "\<exists>v. fst ?r = Inr v"
    and del: "authCodes (snd ?r) = deleteCode code (authCodes st)" by simp_all
  from del have gone: "codesOf (authCodes (snd ?r)) code = None"
    by (simp add: codesOf_deleteCode)
  show "\<exists>v. fst ?r = Inr v" by (rule ok)
  show "codesOf (authCodes (snd ?r)) code = None" by (rule gone)
  show "fst (verify_sms_code later (Some code) (Some ph) (snd ?r)) = Inl InvalidCode"
    by (simp add: verify_sms_absent [OF a(1,2) gone])
next
  assume a: "code \<noteq> []" "codesOf (botAuthCodes bst) code = Some bcd" "now \<le> botExpiresAt bcd"
  let ?r = "verify_code now (Some code) bst"
  from verify_bot_live [OF a] have ok: "\<exists>v. fst ?r = Inr v"
    and del: "botAuthCodes (snd ?r) = deleteCode code (botAuthCodes bst)" by simp_all
  from del have gone: "codesOf (botAuthCodes (snd ?r)) code = None"
    by (simp add: codesOf_deleteCode)
  show "\<exists>v. fst ?r = Inr v" by (rule ok)
  show "codesOf (botAuthCodes (snd ?r)) code = None" by (rule gone)
  show "fst (verify_code later (Some code) (snd ?r)) = Inl InvalidCode"
    by (simp add: verify_bot_absent [OF a(1) gone])
next
  assume "code \<noteq> []" "codesOf (authCodes st) code = None"
  then show "verify_email_code now (Some code) st = (Inl InvalidCode, st)"
    by (rule verify_email_absent)
next
  assume "code \<noteq> []" "codesOf (authCodes st) code = None" "ph \<noteq> []"
  then show "verify_sms_code now (Some code) (Some ph) st = (Inl InvalidCode, st)"
    by (simp add: verify_sms_absent)
next
  assume "code \<noteq> []" "codesOf (botAuthCodes bst) code = None"
  then show "verify_code now (Some code) bst = (Inl InvalidCode, bst)"
    by (rule verify_bot_absent)
qed


theorem code_single_use_witness:
  "(\<exists>v. fst (verify_email_code 1000 (Some ''123456'') exampleCodes) = Inr v)
   \<and> fst (verify_email_code 1001 (Some ''123456'')
            (snd (verify_email_code 1000 (Some ''123456'') exampleCodes))) = Inl InvalidCode
   \<and> (\<exists>v. fst (verify_sms_code 1000 (Some ''654321'') (Some ''+70000000001'') exampleCodes) = Inr v)
   \<and> fst (verify_sms_code 1001 (Some ''654321'') (Some ''+70000000001'')
            (snd (verify_sms_code 1000 (Some ''654321'') (Some ''+70000000001'') exampleCodes)))
        = Inl InvalidCode
   \<and> (\<exists>v. fst (verify_code 1000 (Some ''111222'') exampleBotCodes) = Inr v)
   \<and> fst (verify_code 1001 (Some ''111222'')
            (snd (verify_code 1000 (Some ''111222'') exampleBotCodes))) = Inl InvalidCode
   \<and> verify_email_code 1000 (Some ''999999'') exampleCodes = (Inl InvalidCode, exampleCodes)
   \<and> verify_sms_code 1000 (Some ''999999'') (Some ''+70000000001'') exampleCodes
        = (Inl InvalidCode, exampleCodes)
   \<and> verify_code 1000 (Some ''999999'') exampleBotCodes = (Inl InvalidCode, exampleBotCodes)"
  using code_single_use
          [where code = "''123456''" and st = exampleCodes and now = 1000 and later = 1001
             and cd = "\<lparr> email = Some ''ann@example.org'', phone = None, expiresAt = 5000 \<rparr>"
             and em = "''ann@example.org''"
             and bst = exampleBotCodes and ph = "''+70000000001''"]
        code_single_use
          [where code = "''654321''" and st = exampleCodes and now = 1000 and later = 1001
             and cd = "\<lparr> email = None, phone = Some ''+70000000001'', expiresAt = 5000 \<rparr>"
             and ph = "''+70000000001''" and bst = exampleBotCodes]
        code_single_use
          [where code = "''111222''" and bst = exampleBotCodes and now = 1000 and later = 1001
             and bcd = "\<lparr> telegramId = ''4242'', botExpiresAt = 5000 \<rparr>"
             and st = exampleCodes and ph = "''+70000000001''"]
        code_single_use
          [where code = "''999999''" and st = exampleCodes and bst = exampleBotCodes
             and now = 1000 and ph = "''+70000000001''"]
  by (simp add: exampleCodes_lookup exampleBotCodes_lookup)

text \<open>
  Claim C4 as stated fails. The example registry holds a live code bound to a phone: the
  SMS endpoint with another phone answers \<open>InvalidCode\<close> and keeps the entry, and the
  email endpoint answers 500 and keeps it. The empty code, which no registry holds, is
  answered as a missing field, not as an invalid code.
\<close>

theorem code_single_use_counterexample:
  "codesOf (authCodes exampleCodes) ''654321''
     = Some \<lparr> email = None, phone = Some ''+70000000001'', expiresAt = 5000 \<rparr>
   \<and> (1000::int) \<le> 5000
   \<and> verify_sms_code 1000 (Some ''654321'') (Some ''+70000000002'') exampleCodes
        = (Inl InvalidCode, exampleCodes)
   \<and> verify_email_code 1000 (Some ''654321'') exampleCodes
        = (Inl InternalError, exampleCodes\<lparr> console := [Error ''Error verifying code:''] \<rparr>)
   \<and> codesOf (authCodes exampleCodes) [] = None
   \<and> verify_email_code 1000 (Some []) exampleCodes
        = (Inl (InvalidInput FieldsRequired), exampleCodes)"
  by (simp add: exampleCodes_lookup verify_sms_code_def verify_email_code_def)
     (simp add: exampleCodes_def codesOf_def)

text \<open>
  Claim C5, amended. When the registry holds a code whose expiry lies strictly in the past,
  verifying it (a non-empty submission; in the SMS flow with the phone the code is bound
  to) fails with \<open>CodeExpired\<close>, removes exactly that entry and leaves the users as they
  were. This holds for the email, the SMS and the bot endpoint.
\<close>

theorem expired_code_rejected_and_deleted:
  "(code \<noteq> [] \<and> codesOf (authCodes st) code = Some cd \<and> now > expiresAt cd \<longrightarrow>
       fst (verify_email_code now (Some code) st) = Inl CodeExpired
     \<and> codesOf (authCodes (snd (verify_email_code now (Some code) st)))
         = (codesOf (authCodes st))(code := None)
     \<and> users (snd (verify_email_code now (Some code) st)) = users st)
   \<and> (code \<noteq> [] \<and> ph \<noteq> [] \<and> codesOf (authCodes st) code = Some cd \<and> phone cd = Some ph
      \<and> now > expiresAt cd \<longrightarrow>
       fst (verify_sms_code now (Some code) (Some ph) st) = Inl CodeExpired
     \<and> codesOf (authCodes (snd (verify_sms_code now (Some code) (Some ph) st)))
         = (codesOf (authCodes st))(code := None)
     \<and> users (snd (verify_sms_code now (Some code) (Some ph) st)) = users st)
   \<and> (code \<noteq> [] \<and> codesOf (botAuthCodes bst) code = Some bcd \<and> now > botExpiresAt bcd \<longrightarrow>
       fst (verify_code now (Some code) bst) = Inl CodeExpired
     \<and> codesOf (botAuthCodes (snd (verify_code now (Some code) bst)))
         = (codesOf (botAuthCodes bst))(code := None)
     \<and> botUsers (snd (verify_code now (Some code) bst)) = botUsers bst)"
  by (simp add: verify_email_expired verify_sms_expired verify_bot_expired codesOf_deleteCode)

theorem expired_code_rejected_and_deleted_witness:
  "fst (verify_email_code 9000 (Some ''123456'') exampleCodes) = Inl CodeExpired
   \<and> codesOf (authCodes (snd (verify_email_code 9000 (Some ''123456'') exampleCodes))) ''123456''
       = None
   \<and> fst (verify_sms_code 9000 (Some ''654321'') (Some ''+70000000001'') exampleCodes)
       = Inl CodeExpired
   \<and> codesOf (authCodes (snd (verify_sms_code 9000 (Some ''654321'') (Some ''+70000000001'')
                                exampleCodes))) ''654321'' = None
   \<and> fst (verify_code 9000 (Some ''111222'') exampleBotCodes) = Inl CodeExpired
   \<and> codesOf (botAuthCodes (snd (verify_code 9000 (Some ''111222'') exampleBotCodes))) ''111222''
       = None"
  using expired_code_rejected_and_deleted
          [where code = "''123456''" and st = exampleCodes and now = 9000
             and cd = "\<lparr> email = Some ''ann@example.org'', phone = None, expiresAt = 5000 \<rparr>"
             and bst = exampleBotCodes and ph = "''+70000000001''"]
        expired_code_rejected_and_deleted
          [where code = "''654321''" and st = exampleCodes and now = 9000
             and cd = "\<lparr> email = None, phone = Some ''+70000000001'', expiresAt = 5000 \<rparr>"
             and ph = "''+70000000001''" and bst = exampleBotCodes]
        expired_code_rejected_and_deleted
          [where code = "''111222''" and bst = exampleBotCodes and now = 9000
             and bcd = "\<lparr> telegramId = ''4242'', botExpiresAt = 5000 \<rparr>"
             and st = exampleCodes and ph = "''+70000000001''"]
  by (simp add: exampleCodes_lookup exampleBotCodes_lookup)

text \<open>
  Claim C5 as stated fails in the SMS flow: the phone is compared before the expiry, so an
  expired code submitted with another phone is answered \<open>InvalidCode\<close> and stays in the
  registry.
\<close>

theorem expired_code_counterexample:
  "codesOf (authCodes exampleCodes) ''654321''
     = Some \<lparr> email = None, phone = Some ''+70000000001'', expiresAt = 5000 \<rparr>
   \<and> (5000::int) < 9000
   \<and> verify_sms_code 9000 (Some ''654321'') (Some ''+70000000002'') exampleCodes
        = (Inl InvalidCode, exampleCodes)"
  by (simp add: exampleCodes_lookup verify_sms_code_def)

text \<open>
  Claim C9. In the SMS flow, when the registry holds the code and the phone supplied is not
  the one bound to it, verification fails with \<open>InvalidCode\<close> and changes nothing: the
  entry stays, and the code still verifies with the right phone while it is live. Whenever
  the SMS endpoint changes the registry, the request succeeded or the code had expired.
\<close>

theorem sms_mismatch_keeps_code:
  assumes "code \<noteq> []" and "ph \<noteq> []" and "codesOf (authCodes st) code = Some cd"
    and "phone cd \<noteq> Some ph"
  shows "verify_sms_code now (Some code) (Some ph) st = (Inl InvalidCode, st)
       \<and> (\<forall>ph'. ph' \<noteq> [] \<and> phone cd = Some ph' \<and> later \<le> expiresAt cd \<longrightarrow>
            (\<exists>v. fst (verify_sms_code later (Some code) (Some ph')
                         (snd (verify_sms_code now (Some code) (Some ph) st))) = Inr v))
       \<and> (\<forall>codeOpt phoneOpt s.
            authCodes (snd (verify_sms_code now codeOpt phoneOpt s)) \<noteq> authCodes s \<longrightarrow>
              (\<exists>v. fst (verify_sms_code now codeOpt phoneOpt s) = Inr v)
            \<or> fst (verify_sms_code now codeOpt phoneOpt s) = Inl CodeExpired)"
proof (intro conjI allI impI)
  show same: "verify_sms_code now (Some code) (Some ph) st = (Inl InvalidCode, st)"
    using assms by (rule verify_sms_mismatch)
  fix ph'
  assume "ph' \<noteq> [] \<and> phone cd = Some ph' \<and> later \<le> expiresAt cd"
  with assms(1,3) verify_sms_live [of code ph' st cd later]
  show "\<exists>v. fst (verify_sms_code later (Some code) (Some ph')
                    (snd (verify_sms_code now (Some code) (Some ph) st))) = Inr v"
    by (simp add: same)
next
  fix codeOpt phoneOpt s
  assume "authCodes (snd (verify_sms_code now codeOpt phoneOpt s)) \<noteq> authCodes s"
  then show "(\<exists>v. fst (verify_sms_code now codeOpt phoneOpt s) = Inr v)
            \<or> fst (verify_sms_code now codeOpt phoneOpt s) = Inl CodeExpired"
    by (rule verify_sms_registry_change)
qed

theorem sms_mismatch_keeps_code_witness:
  "verify_sms_code 1000 (Some ''654321'') (Some ''+70000000002'') exampleCodes
     = (Inl InvalidCode, exampleCodes)
   \<and> (\<exists>v. fst (verify_sms_code 1001 (Some ''654321'') (Some ''+70000000001'')
                 (snd (verify_sms_code 1000 (Some ''654321'') (Some ''+70000000002'') exampleCodes)))
            = Inr v)"
  using sms_mismatch_keeps_code
          [where code = "''654321''" and ph = "''+70000000002''" and st = exampleCodes
             and cd = "\<lparr> email = None, phone = Some ''+70000000001'', expiresAt = 5000 \<rparr>"
             and now = 1000 and later = 1001]
  by (auto simp add: exampleCodes_lookup)


text \<open>
  Claim C8. Issuing a code for an email address, a phone or a bot identity reports success
  whatever the delivery does: the code is bound in the registry with an expiry of now plus
  five minutes, and a delivery that throws is only written to the console.
\<close>

theorem issue_succeeds_whatever_delivery:
  assumes "em \<noteq> []" and "ph \<noteq> []" and "tg \<noteq> []"
  shows "fst (send_email_code now rnd sendMail (Some em) st) = Inr CodeSent
       \<and> codesOf (authCodes (snd (send_email_code now rnd sendMail (Some em) st)))
           = (codesOf (authCodes st))
               (generateCode rnd \<mapsto> \<lparr> email = Some em, phone = None,
                                       expiresAt = now + 5 * 60 * 1000 \<rparr>)
       \<and> (sendMail = DeliveryThrew \<longrightarrow>
            console (snd (send_email_code now rnd sendMail (Some em) st))
              = console st @ [Error ''Email sending error:''])
       \<and> fst (send_sms_code smsApiId now rnd sendSms (Some ph) st) = Inr CodeSent
       \<and> codesOf (authCodes (snd (send_sms_code smsApiId now rnd sendSms (Some ph) st)))
           = (codesOf (authCodes st))
               (generateCode rnd \<mapsto> \<lparr> email = None, phone = Some ph,
                                       expiresAt = now + 5 * 60 * 1000 \<rparr>)
       \<and> (smsApiId \<noteq> [] \<and> sendSms = DeliveryThrew \<longrightarrow>
            console (snd (send_sms_code smsApiId now rnd sendSms (Some ph) st))
              = console st @ [Error ''SMS sending error:''])
       \<and> fst (request_code now rnd sendMessage (Some tg) bst) = Inr CodeSent
       \<and> codesOf (botAuthCodes (snd (request_code now rnd sendMessage (Some tg) bst)))
             (generateCode rnd)
           = Some \<lparr> telegramId = tg, botExpiresAt = now + 5 * 60 * 1000 \<rparr>
       \<and> (sendMessage \<noteq> ResponseOk \<longrightarrow>
            botConsole (snd (request_code now rnd sendMessage (Some tg) bst))
              = botConsole bst @ [Log ''Telegram error:''])"
proof -
  have e: "fst (send_email_code now rnd sendMail (Some em) st) = Inr CodeSent
       \<and> codesOf (authCodes (snd (send_email_code now rnd sendMail (Some em) st)))
           = (codesOf (authCodes st))
               (generateCode rnd \<mapsto> \<lparr> email = Some em, phone = None,
                                       expiresAt = now + 5 * 60 * 1000 \<rparr>)
       \<and> (sendMail = DeliveryThrew \<longrightarrow>
            console (snd (send_email_code now rnd sendMail (Some em) st))
              = console st @ [Error ''Email sending error:''])"
    using assms(1)
    by (cases sendMail) (simp_all add: send_email_code_def Let_def codesOf_Some fiveMinutes_def)
  have s: "fst (send_sms_code smsApiId now rnd sendSms (Some ph) st) = Inr CodeSent
       \<and> codesOf (authCodes (snd (send_sms_code smsApiId now rnd sendSms (Some ph) st)))
           = (codesOf (authCodes st))
               (generateCode rnd \<mapsto> \<lparr> email = None, phone = Some ph,
                                       expiresAt = now + 5 * 60 * 1000 \<rparr>)
       \<and> (smsApiId \<noteq> [] \<and> sendSms = DeliveryThrew \<longrightarrow>
            console (snd (send_sms_code smsApiId now rnd sendSms (Some ph) st))
              = console st @ [Error ''SMS sending error:''])"
    using assms(2)
    by (cases sendSms) (simp_all add: send_sms_code_def Let_def codesOf_Some fiveMinutes_def)
  have b: "fst (request_code now rnd sendMessage (Some tg) bst) = Inr CodeSent
       \<and> codesOf (botAuthCodes (snd (request_code now rnd sendMessage (Some tg) bst)))
             (generateCode rnd)
           = Some \<lparr> telegramId = tg, botExpiresAt = now + 5 * 60 * 1000 \<rparr>
       \<and> (sendMessage \<noteq> ResponseOk \<longrightarrow>
            botConsole (snd (request_code now rnd sendMessage (Some tg) bst))
              = botConsole bst @ [Log ''Telegram error:''])"
    using assms(3)
    by (cases sendMessage) (simp_all add: request_code_def Let_def codesOf_Some fiveMinutes_def)
  from e s b show ?thesis by blast
qed

theorem issue_succeeds_whatever_delivery_witness:
  "fst (send_email_code 1000 23456 DeliveryThrew (Some ''bob@example.org'') exampleCodes)
     = Inr CodeSent
   \<and> codesOf (authCodes (snd (send_email_code 1000 23456 DeliveryThrew (Some ''bob@example.org'')
                                exampleCodes))) ''123456''
       = Some \<lparr> email = Some ''bob@example.org'', phone = None, expiresAt = 301000 \<rparr>
   \<and> fst (send_sms_code ''key'' 1000 23456 DeliveryThrew (Some ''+70000000003'') exampleCodes)
       = Inr CodeSent
   \<and> fst (request_code 1000 23456 FetchThrew (Some ''4243'') exampleBotCodes) = Inr CodeSent"
  using issue_succeeds_whatever_delivery
          [where em = "''bob@example.org''" and ph = "''+70000000003''" and tg = "''4243''"
             and now = 1000 and rnd = 23456 and sendMail = DeliveryThrew
             and sendSms = DeliveryThrew and sendMessage = FetchThrew and smsApiId = "''key''"
             and st = exampleCodes and bst = exampleBotCodes]
  by (simp add: generateCode_23456)

text \<open>
  Claim C10. Issuing a code through the bot channel replaces the registry by a map that
  holds the new code only: every other code is absent afterwards, and verifying it fails
  with \<open>InvalidCode\<close>.
\<close>

theorem bot_issue_replaces_registry:
  assumes "tg \<noteq> []"
  shows "fst (request_code now rnd sendMessage (Some tg) bst) = Inr CodeSent
       \<and> botAuthCodes (snd (request_code now rnd sendMessage (Some tg) bst))
           = Some (Map.empty (generateCode rnd \<mapsto>
                     \<lparr> telegramId = tg, botExpiresAt = now + 5 * 60 * 1000 \<rparr>))
       \<and> (\<forall>c. c \<noteq> generateCode rnd \<longrightarrow>
             codesOf (botAuthCodes (snd (request_code now rnd sendMessage (Some tg) bst))) c = None
           \<and> (c \<noteq> [] \<longrightarrow>
                fst (verify_code later (Some c)
                       (snd (request_code now rnd sendMessage (Some tg) bst))) = Inl InvalidCode))"
proof -
  let ?st' = "snd (request_code now rnd sendMessage (Some tg) bst)"
  have ok: "fst (request_code now rnd sendMessage (Some tg) bst) = Inr CodeSent"
    using assms by (simp add: request_code_def Let_def)
  have reg: "botAuthCodes ?st'
           = Some (Map.empty (generateCode rnd \<mapsto>
                     \<lparr> telegramId = tg, botExpiresAt = now + 5 * 60 * 1000 \<rparr>))"
    using assms by (simp add: request_code_def Let_def fiveMinutes_def)
  have gone: "codesOf (botAuthCodes ?st') c = None" if "c \<noteq> generateCode rnd" for c
    using that by (simp add: reg codesOf_Some)
  have "fst (verify_code later (Some c) ?st') = Inl InvalidCode"
    if "c \<noteq> generateCode rnd" "c \<noteq> []" for c
    using verify_bot_absent [OF that(2) gone [OF that(1)]] by simp
  with ok reg gone show ?thesis by blast
qed

theorem bot_issue_replaces_registry_witness:
  "codesOf (botAuthCodes exampleBotCodes) ''111222''
      = Some \<lparr> telegramId = ''4242'', botExpiresAt = 5000 \<rparr>
   \<and> fst (request_code 1000 23456 ResponseOk (Some ''4243'') exampleBotCodes) = Inr CodeSent
   \<and> codesOf (botAuthCodes (snd (request_code 1000 23456 ResponseOk (Some ''4243'')
                                   exampleBotCodes))) ''111222'' = None
   \<and> fst (verify_code 1001 (Some ''111222'')
            (snd (request_code 1000 23456 ResponseOk (Some ''4243'') exampleBotCodes)))
       = Inl InvalidCode"
  using bot_issue_replaces_registry
          [where tg = "''4243''" and now = 1000 and rnd = 23456 and sendMessage = ResponseOk
             and bst = exampleBotCodes and later = 1001]
  by (auto simp add: generateCode_23456 exampleBotCodes_lookup codesOf_Some)

end
